theory Spec2Isabelle
  imports Main "HOL-Library.Word" "HOL-Library.Char_ord" "HOL-Library.List_Lexorder"
begin

section \<open>The email notifier of pkg/notify/email.go\<close>

text \<open>
  A shallow embedding of \<^verbatim>\<open>src/pkg/notify/email.go\<close>: the constructor
  \<^verbatim>\<open>NewEmailNotifier\<close>, the dispatch loop \<^verbatim>\<open>Notify\<close>, the subject
  synthesizer \<^verbatim>\<open>getSubject\<close>, \<^verbatim>\<open>Clone\<close> and \<^verbatim>\<open>kvToLabelSet\<close>.

  Conventions of the model.
  \<^item> Go strings are byte sequences: \<open>string\<close>. An \<^verbatim>\<open>error\<close> value is represented
    by its message.
  \<^item> \<^verbatim>\<open>template.KV\<close> is \<^verbatim>\<open>map[string]string\<close>. A Go \<^verbatim>\<open>range\<close> over a map
    visits every key once, in an order the language leaves unspecified. The model
    carries such a map as the list of its key/value pairs in the order in which the
    \<^verbatim>\<open>range\<close> statement visits them; a lookup \<^verbatim>\<open>m[k]\<close> is \<open>kv_get\<close>, which
    yields the empty string for a missing key as Go does.
  \<^item> \<^verbatim>\<open>*config.EmailConfig\<close> is a pointer: the structs live in an explicit store
    (a list indexed by address), a pointer is \<open>addr option\<close> with \<open>None\<close> for nil.
  \<^item> A run-time panic is the left injection of the result type.
  \<^item> The transport of the alertmanager library is a parameter that may return an error
    or panic; the library's \<^verbatim>\<open>email.New\<close>, which writes to the configuration, is
    modelled.
  \<^item> Calls to the logger have no influence on control flow or results and are left out.
\<close>

subsection \<open>Data of the external libraries\<close>

type_synonym error = string

type_synonym KV = "(string \<times> string) list"

definition kv_get :: "KV \<Rightarrow> string \<Rightarrow> string" where
  "kv_get kv k = (case map_of kv k of None \<Rightarrow> [] | Some v \<Rightarrow> v)"

text \<open>\<^verbatim>\<open>template.Alert\<close>; times are opaque time stamps.\<close>

record Alert =
  Status :: string
  Labels :: KV
  Annotations :: KV
  StartsAt :: int
  EndsAt :: int
  GeneratorURL :: string

text \<open>\<^verbatim>\<open>template.Alerts.Firing\<close> and \<^verbatim>\<open>Resolved\<close> of the alertmanager library:
  the alerts whose status is the string \<^verbatim>\<open>firing\<close>, respectively \<^verbatim>\<open>resolved\<close>.\<close>

definition Firing :: "Alert list \<Rightarrow> Alert list" where
  "Firing as = filter (\<lambda>a. Status a = ''firing'') as"

definition Resolved :: "Alert list \<Rightarrow> Alert list" where
  "Resolved as = filter (\<lambda>a. Status a = ''resolved'') as"

text \<open>\<^verbatim>\<open>template.Data\<close>.\<close>

record Data =
  Receiver :: string
  data_Status :: string
  Alerts :: "Alert list"
  GroupLabels :: KV
  CommonLabels :: KV
  CommonAnnotations :: KV
  ExternalURL :: string

subsection \<open>Formatting\<close>

text \<open>The verb \<^verbatim>\<open>%d\<close> of \<^verbatim>\<open>fmt.Sprintf\<close> on the result of \<^verbatim>\<open>len\<close>, which
  is never negative: the decimal digits, most significant first.\<close>

definition digit :: "nat \<Rightarrow> char" where
  "digit n = ''0123456789'' ! n"

function itoa :: "nat \<Rightarrow> string" where
  "itoa n = (if n < 10 then [digit n] else itoa (n div 10) @ [digit (n mod 10)])"
  by pat_completeness auto
termination
  by (relation "measure id") auto

declare itoa.simps [simp del]

text \<open>\<^verbatim>\<open>strings.TrimSuffix\<close>: the string without the given trailing suffix, or the
  string itself when it does not end with the suffix.\<close>

definition TrimSuffix :: "string \<Rightarrow> string \<Rightarrow> string" where
  "TrimSuffix s suffix =
     (if length suffix \<le> length s \<and> drop (length s - length suffix) s = suffix
      then take (length s - length suffix) s else s)"

subsection \<open>getSubject\<close>

text \<open>The loop \<^verbatim>\<open>for k, v := range data.CommonLabels\<close> with its accumulator
  \<^verbatim>\<open>labels\<close>; the pairs come in the order the range visits them.\<close>

fun labelsLoop :: "KV \<Rightarrow> string \<Rightarrow> string" where
  "labelsLoop [] labels = labels"
| "labelsLoop ((k, v) # kvs) labels =
     (if k = ''namespace'' \<or> k = ''alertname'' then labelsLoop kvs labels
      else labelsLoop kvs (labels @ k @ ''='' @ v @ '',''))"

definition getSubject :: "Data \<Rightarrow> string" where
  "getSubject d =
     (let subject0 = [];
          ns = kv_get (CommonLabels d) ''namespace'';
          alertname = kv_get (CommonLabels d) ''alertname'';
          firingNum = length (Firing (Alerts d));
          subject1 = (if firingNum > 0 then ''[FIRING:'' @ itoa firingNum @ ''] '' else subject0);
          resolvedNum = length (Resolved (Alerts d));
          subject2 = (if resolvedNum > 0
                      then subject1 @ ''[RESOLVED:'' @ itoa resolvedNum @ ''] '' else subject1);
          subject3 = (if length ns > 0 then subject2 @ '' '' @ ns else subject2);
          subject4 = (if length alertname > 0
                      then (if length ns > 0 then subject3 @ ''/'' @ alertname
                            else subject3 @ alertname)
                      else subject3);
          labels = labelsLoop (CommonLabels d) []
      in if length labels > 0
         then subject4 @ '' ('' @ TrimSuffix labels '','' @ '')''
         else subject4)"

subsection \<open>Configurations and the store\<close>

text \<open>\<^verbatim>\<open>commoncfg.TLSConfig\<close>, a struct of plain values, copied by assignment.\<close>

record commoncfg_TLSConfig =
  CAFile :: string
  CertFile :: string
  KeyFile :: string
  ServerName :: string
  InsecureSkipVerify :: bool

type_synonym addr = nat

text \<open>\<^verbatim>\<open>config.EmailConfig\<close> of the alertmanager library. The embedded
  \<^verbatim>\<open>NotifierConfig\<close> has the single field \<^verbatim>\<open>VSendResolved\<close>. \<^verbatim>\<open>Headers\<close> is a
  Go map, \<open>None\<close> when nil. \<^verbatim>\<open>RequireTLS\<close> is a \<^verbatim>\<open>*bool\<close>: the address of a
  boolean cell that no function of this file reads or writes, \<open>None\<close> when nil.\<close>

record EmailConfig =
  VSendResolved :: bool
  To :: string
  From :: string
  Hello :: string
  Smarthost :: string
  AuthUsername :: string
  AuthPassword :: string
  AuthSecret :: string
  AuthIdentity :: string
  Headers :: "(string \<rightharpoonup> string) option"
  HTML :: string
  Text :: string
  RequireTLS :: "addr option"
  TLSConfig :: commoncfg_TLSConfig

text \<open>The store of \<^verbatim>\<open>EmailConfig\<close> structs: the address of a struct is its index, an
  allocation appends. Go has no dangling pointers; an address outside the store is
  reported as \<open>DanglingPointer\<close>, which no run from well-formed inputs reaches.
  \<open>TransportPanic\<close> is a panic inside the transport.\<close>

type_synonym heap = "EmailConfig list"

datatype panic = NilDereference | NilMapWrite | DanglingPointer | TransportPanic

definition deref :: "heap \<Rightarrow> addr option \<Rightarrow> panic + EmailConfig" where
  "deref h p =
     (case p of None \<Rightarrow> Inl NilDereference
      | Some a \<Rightarrow> if a < length h then Inr (h ! a) else Inl DanglingPointer)"

definition modify :: "addr option \<Rightarrow> (EmailConfig \<Rightarrow> EmailConfig) \<Rightarrow> heap \<Rightarrow> panic + heap" where
  "modify p f h =
     (case p of None \<Rightarrow> Inl NilDereference
      | Some a \<Rightarrow> if a < length h then Inr (h[a := f (h ! a)]) else Inl DanglingPointer)"

definition alloc :: "EmailConfig \<Rightarrow> heap \<Rightarrow> addr \<times> heap" where
  "alloc c h = (length h, h @ [c])"

subsection \<open>Clone\<close>

text \<open>A nil argument gives nil. Otherwise a new struct is allocated. The field
  \<^verbatim>\<open>RequireTLS\<close> is the address of the dereferenced \<^verbatim>\<open>ec.RequireTLS\<close>: a panic when
  that pointer is nil, and that same pointer otherwise.\<close>

definition Clone :: "addr option \<Rightarrow> heap \<Rightarrow> panic + (addr option \<times> heap)" where
  "Clone ec h =
     (case ec of None \<Rightarrow> Inr (None, h)
      | Some b \<Rightarrow>
          (case deref h ec of Inl p \<Rightarrow> Inl p
           | Inr c \<Rightarrow>
               (case RequireTLS c of None \<Rightarrow> Inl NilDereference
                | Some t \<Rightarrow>
                    (case alloc \<lparr>VSendResolved = False, To = [], From = From c,
                              Hello = Hello c, Smarthost = Smarthost c,
                              AuthUsername = AuthUsername c, AuthPassword = AuthPassword c,
                              AuthSecret = AuthSecret c, AuthIdentity = AuthIdentity c,
                              Headers = None, HTML = HTML c, Text = Text c,
                              RequireTLS = Some t, TLSConfig = TLSConfig c\<rparr> h of
                       (a, h') \<Rightarrow> Inr (Some a, h')))))"

subsection \<open>NewEmailNotifier\<close>

text \<open>Modelled from the spec: the declarations of \<^verbatim>\<open>notifyconfig.Email\<close> and
  \<^verbatim>\<open>nmv1alpha1.Options\<close> are not part of \<^verbatim>\<open>email.go\<close>. The receiver value carries
  the recipients and a pointer to the base configuration: the fields \<^verbatim>\<open>To\<close> and
  \<^verbatim>\<open>EmailConfig\<close> that the constructor reads. The options carry a timeout in seconds
  per kind of notifier: the constructor reads \<^verbatim>\<open>NotificationTimeout.Email\<close> through
  two pointers that may be nil, the number being a pointer to a signed 32-bit integer.\<close>

record Email =
  recv_To :: "string list"
  recv_EmailConfig :: "addr option"

record NotificationTimeout =
  nt_Email :: "32 word option"

record Options =
  opt_NotificationTimeout :: "NotificationTimeout option"

text \<open>The argument \<^verbatim>\<open>val interface{}\<close>: the nil interface, a \<^verbatim>\<open>*notifyconfig.Email\<close>
  (possibly a nil pointer of that type), or a value of any other dynamic type.\<close>

datatype Value = NilValue | EmailPtr "Email option" | OtherValue

text \<open>\<^verbatim>\<open>template.Template\<close>: only its field \<^verbatim>\<open>ExternalURL\<close>, a \<^verbatim>\<open>*url.URL\<close>, is
  touched here. A parsed URL is opaque.\<close>

datatype URL = URL string

record Template =
  tmpl_ExternalURL :: "URL option"

text \<open>\<^verbatim>\<open>time.Duration\<close> is a signed 64-bit count of nanoseconds.\<close>

type_synonym Duration = "64 word"

definition Second :: Duration where
  "Second = 1000000000"

definition DefaultSendTimeout :: Duration where
  "DefaultSendTimeout = Second * 3"

text \<open>The notifier. \<^verbatim>\<open>Config\<close> is a pointer into the store. \<^verbatim>\<open>Template\<close> is a pointer
  to a struct that only this notifier holds: the struct is kept in the field, \<open>None\<close>
  when the pointer is nil.\<close>

record EmailNotifier =
  en_To :: "string list"
  en_Config :: "addr option"
  en_Template :: "Template option"
  en_Timeout :: Duration

text \<open>The body that the constructor sets: the text
  \<^verbatim>\<open>{{ template "email.default.html" . }}\<close>, whose double quotes are the character
  \<open>0x22\<close>.\<close>

definition defaultHTML :: string where
  "defaultHTML = ''{{ template '' @ [CHR 0x22] @ ''email.default.html'' @ [CHR 0x22] @ '' . }}''"

text \<open>The test \<^verbatim>\<open>opts != nil && opts.NotificationTimeout != nil &&
  opts.NotificationTimeout.Email != nil\<close> and the value it guards.\<close>

definition optsEmail :: "Options option \<Rightarrow> 32 word option" where
  "optsEmail opts =
     (case opts of None \<Rightarrow> None
      | Some os \<Rightarrow>
          (case opt_NotificationTimeout os of None \<Rightarrow> None
           | Some nt \<Rightarrow> nt_Email nt))"

text \<open>The first argument is what the call \<^verbatim>\<open>template.FromGlobs()\<close> returns: an error
  or a template. The result is a panic, or the returned interface value (\<open>None\<close> for
  nil) with the store.\<close>

definition NewEmailNotifier ::
  "error + Template \<Rightarrow> Value \<Rightarrow> Options option \<Rightarrow> heap \<Rightarrow> panic + (EmailNotifier option \<times> heap)" where
  "NewEmailNotifier fromGlobs val opts h =
     (case val of
        EmailPtr rp \<Rightarrow>
          (case rp of None \<Rightarrow> Inl NilDereference
           | Some receiver \<Rightarrow>
               (let notifier = \<lparr>en_To = recv_To receiver, en_Config = None,
                                en_Template = None, en_Timeout = DefaultSendTimeout\<rparr>
                in case Clone (recv_EmailConfig receiver) h of Inl p \<Rightarrow> Inl p
                   | Inr (cfg, h1) \<Rightarrow>
                       (let notifier1 = notifier\<lparr>en_Config := cfg\<rparr>
                        in case cfg of None \<Rightarrow> Inr (None, h1)
                           | Some a \<Rightarrow>
                               (case modify cfg
                                       (\<lambda>c. if Headers c = None
                                             then c\<lparr>Headers := Some Map.empty\<rparr> else c) h1 of
                                  Inl p \<Rightarrow> Inl p
                                | Inr h2 \<Rightarrow>
                                    (case modify cfg (\<lambda>c. c\<lparr>HTML := defaultHTML\<rparr>) h2 of
                                       Inl p \<Rightarrow> Inl p
                                     | Inr h3 \<Rightarrow>
                                         (case fromGlobs of Inl err \<Rightarrow> Inr (None, h3)
                                          | Inr tmpl \<Rightarrow>
                                              (let notifier2 = notifier1\<lparr>en_Template := Some tmpl\<rparr>;
                                                   notifier3 =
                                                     (case optsEmail opts of
                                                        None \<Rightarrow> notifier2
                                                      | Some t \<Rightarrow>
                                                          notifier2\<lparr>en_Timeout := Second * scast t\<rparr>)
                                               in Inr (Some notifier3, h3))))))))
      | _ \<Rightarrow> Inr (None, h))"

subsection \<open>Notify\<close>

text \<open>\<^verbatim>\<open>kvToLabelSet\<close>: the loop inserts every pair into a fresh map.\<close>

definition kvToLabelSet :: "KV \<Rightarrow> (string \<rightharpoonup> string)" where
  "kvToLabelSet obj = fold (\<lambda>(k, v) ls. ls(k \<mapsto> v)) obj Map.empty"

text \<open>\<^verbatim>\<open>types.Alert\<close> with the fields the loop fills.\<close>

record types_Alert =
  al_Labels :: "string \<rightharpoonup> string"
  al_Annotations :: "string \<rightharpoonup> string"
  al_StartsAt :: int
  al_EndsAt :: int
  al_GeneratorURL :: string

text \<open>One call \<^verbatim>\<open>e.Notify(ctx, as...)\<close> of the transport, as the transport sees it:
  the configuration \<^verbatim>\<open>*en.Config\<close> and the template at the time of the call, the
  deadline, group labels and receiver name of the context, and the alerts.\<close>

record Delivery =
  dl_conf :: EmailConfig
  dl_tmpl :: "Template option"
  dl_timeout :: Duration
  dl_groupLabels :: "string \<rightharpoonup> string"
  dl_receiverName :: string
  dl_alerts :: "types_Alert list"

text \<open>\<^verbatim>\<open>email.New\<close> of the alertmanager library (package \<^verbatim>\<open>notify/email\<close>), which
  \<^verbatim>\<open>sendEmail\<close> calls with the pointer \<^verbatim>\<open>en.Config\<close>. For each of the header keys
  \<^verbatim>\<open>Subject\<close>, \<^verbatim>\<open>To\<close> and \<^verbatim>\<open>From\<close> that the header map of the configuration
  lacks, it stores a default under the key: the library's default subject
  \<^verbatim>\<open>{{ template "email.default.subject" . }}\<close>, the configuration's destination and its
  origin. A lookup in a nil map finds nothing, and the store into it panics.\<close>

definition DefaultEmailSubject :: string where
  "DefaultEmailSubject =
     ''{{ template '' @ [CHR 0x22] @ ''email.default.subject'' @ [CHR 0x22] @ '' . }}''"

definition setDefaultHeader ::
  "string \<Rightarrow> string \<Rightarrow> (string \<rightharpoonup> string) option \<Rightarrow> panic + (string \<rightharpoonup> string) option" where
  "setDefaultHeader k v headers =
     (case headers of None \<Rightarrow> Inl NilMapWrite
      | Some hs \<Rightarrow> (case hs k of None \<Rightarrow> Inr (Some (hs(k \<mapsto> v))) | Some x \<Rightarrow> Inr (Some hs)))"

definition email_New :: "EmailConfig \<Rightarrow> panic + EmailConfig" where
  "email_New c =
     (case setDefaultHeader ''Subject'' DefaultEmailSubject (Headers c) of Inl p \<Rightarrow> Inl p
      | Inr h1 \<Rightarrow>
          (case setDefaultHeader ''To'' (To c) h1 of Inl p \<Rightarrow> Inl p
           | Inr h2 \<Rightarrow>
               (case setDefaultHeader ''From'' (From c) h2 of Inl p \<Rightarrow> Inl p
                | Inr h3 \<Rightarrow> Inr (c\<lparr>Headers := h3\<rparr>))))"

text \<open>The transport \<^verbatim>\<open>e.Notify\<close> of the library is outside this file. It is a parameter:
  from the state of the world and a delivery it either returns no error, returns an
  error, or panics (as the library does when it renders with a template whose
  \<^verbatim>\<open>ExternalURL\<close> is nil), and it gives the next state of the world. It reads the
  configuration it is handed and does not write it.\<close>

datatype outcome = Delivered | Failed error | Panicked

type_synonym 'w transport = "'w \<Rightarrow> Delivery \<Rightarrow> outcome \<times> 'w"

text \<open>The state of a run of \<^verbatim>\<open>Notify\<close>: the notifier (its template is written), the
  store (the configuration is written), the world, and the slice \<^verbatim>\<open>errs\<close>.\<close>

record 'w run =
  run_en :: EmailNotifier
  run_heap :: heap
  run_world :: 'w
  run_errs :: "error list"

text \<open>The closure \<^verbatim>\<open>sendEmail\<close>: the destination is written into the stored
  configuration, \<^verbatim>\<open>email.New\<close> completes its header map in place, and the transport is
  called; an error it returns is appended to \<^verbatim>\<open>errs\<close>, a panic ends the run.\<close>

definition sendEmail :: "'w transport \<Rightarrow> Data \<Rightarrow> types_Alert list \<Rightarrow> string \<Rightarrow> 'w run \<Rightarrow> panic + 'w run" where
  "sendEmail deliver d as to r =
     (let en = run_en r
      in case modify (en_Config en) (\<lambda>c. c\<lparr>To := to\<rparr>) (run_heap r) of Inl p \<Rightarrow> Inl p
         | Inr h1 \<Rightarrow>
             (case deref h1 (en_Config en) of Inl p \<Rightarrow> Inl p
              | Inr c \<Rightarrow>
                  (case email_New c of Inl p \<Rightarrow> Inl p
                   | Inr c1 \<Rightarrow>
                       (case modify (en_Config en) (\<lambda>c. c1) h1 of Inl p \<Rightarrow> Inl p
                        | Inr h2 \<Rightarrow>
                            (let dl = \<lparr>dl_conf = c1, dl_tmpl = en_Template en,
                                       dl_timeout = en_Timeout en,
                                       dl_groupLabels = kvToLabelSet (GroupLabels d),
                                       dl_receiverName = Receiver d, dl_alerts = as\<rparr>
                             in case deliver (run_world r) dl of
                                  (Delivered, w1) \<Rightarrow> Inr (r\<lparr>run_heap := h2, run_world := w1\<rparr>)
                                | (Failed e, w1) \<Rightarrow>
                                    Inr (r\<lparr>run_heap := h2, run_world := w1,
                                           run_errs := run_errs r @ [e]\<rparr>)
                                | (Panicked, w1) \<Rightarrow> Inl TransportPanic)))))"

text \<open>The loop \<^verbatim>\<open>for _, to := range en.To\<close>.\<close>

fun sendAll :: "'w transport \<Rightarrow> Data \<Rightarrow> types_Alert list \<Rightarrow> string list \<Rightarrow> 'w run \<Rightarrow> panic + 'w run" where
  "sendAll deliver d as [] r = Inr r"
| "sendAll deliver d as (to # tos) r =
     (case sendEmail deliver d as to r of Inl p \<Rightarrow> Inl p
      | Inr r1 \<Rightarrow> sendAll deliver d as tos r1)"

text \<open>The conversion of one alert in the loop over \<^verbatim>\<open>d.Alerts\<close>.\<close>

definition toTypesAlert :: "Alert \<Rightarrow> types_Alert" where
  "toTypesAlert a =
     \<lparr>al_Labels = kvToLabelSet (Labels a), al_Annotations = kvToLabelSet (Annotations a),
      al_StartsAt = StartsAt a, al_EndsAt = EndsAt a, al_GeneratorURL = GeneratorURL a\<rparr>"

text \<open>The body of the loop over the batches. \<^verbatim>\<open>url.Parse\<close> is a parameter: the URL it
  returns, \<open>None\<close> when it returns an error (the error is dropped).\<close>

definition notifyBatch :: "'w transport \<Rightarrow> (string \<Rightarrow> URL option) \<Rightarrow> Data \<Rightarrow> 'w run \<Rightarrow> panic + 'w run" where
  "notifyBatch deliver parse d r =
     (let en = run_en r
      in case deref (run_heap r) (en_Config en) of Inl p \<Rightarrow> Inl p
         | Inr c \<Rightarrow>
             (case Headers c of None \<Rightarrow> Inl NilMapWrite
              | Some hs \<Rightarrow>
                  (case modify (en_Config en)
                          (\<lambda>c. c\<lparr>Headers := Some (hs(''Subject'' \<mapsto> getSubject d))\<rparr>)
                          (run_heap r) of
                     Inl p \<Rightarrow> Inl p
                   | Inr h1 \<Rightarrow>
                       (case en_Template en of None \<Rightarrow> Inl NilDereference
                        | Some t \<Rightarrow>
                            (let en1 = en\<lparr>en_Template :=
                                             Some (t\<lparr>tmpl_ExternalURL := parse (ExternalURL d)\<rparr>)\<rparr>;
                                 as = map toTypesAlert (Alerts d)
                             in sendAll deliver d as (en_To en1)
                                  (r\<lparr>run_en := en1, run_heap := h1\<rparr>))))))"

fun notifyLoop :: "'w transport \<Rightarrow> (string \<Rightarrow> URL option) \<Rightarrow> Data list \<Rightarrow> 'w run \<Rightarrow> panic + 'w run" where
  "notifyLoop deliver parse [] r = Inr r"
| "notifyLoop deliver parse (d # ds) r =
     (case notifyBatch deliver parse d r of Inl p \<Rightarrow> Inl p
      | Inr r1 \<Rightarrow> notifyLoop deliver parse ds r1)"

text \<open>\<^verbatim>\<open>Notify\<close>: the returned slice is \<open>run_errs\<close> of the final state.\<close>

definition Notify ::
  "'w transport \<Rightarrow> (string \<Rightarrow> URL option) \<Rightarrow> EmailNotifier \<Rightarrow> Data list \<Rightarrow> heap \<Rightarrow> 'w \<Rightarrow> panic + 'w run" where
  "Notify deliver parse en data h w =
     notifyLoop deliver parse data
       \<lparr>run_en = en, run_heap = h, run_world = w, run_errs = []\<rparr>"

section \<open>Notions used in the statements\<close>

text \<open>What a transport does with a list of deliveries handed to it one after the other
  from a state of the world: the outcomes in order, up to and including the first panic,
  and the state of the world at the end.\<close>

fun attempts :: "'w transport \<Rightarrow> 'w \<Rightarrow> Delivery list \<Rightarrow> outcome list \<times> 'w" where
  "attempts deliver w [] = ([], w)"
| "attempts deliver w (dl # dls) =
     (case deliver w dl of
        (Panicked, w1) \<Rightarrow> ([Panicked], w1)
      | (res, w1) \<Rightarrow> (case attempts deliver w1 dls of (rs, w2) \<Rightarrow> (res # rs, w2)))"

text \<open>The errors among outcomes, in order, and the test for a failed attempt.\<close>

fun errorsOf :: "outcome list \<Rightarrow> error list" where
  "errorsOf [] = []"
| "errorsOf (Failed e # rs) = e # errorsOf rs"
| "errorsOf (Delivered # rs) = errorsOf rs"
| "errorsOf (Panicked # rs) = errorsOf rs"


text \<open>The stored configuration after \<^verbatim>\<open>sendEmail\<close> has written a destination and
  \<^verbatim>\<open>email.New\<close> has completed the header map (for an allocated header map), and after
  the first statement of the loop body has written the subject of a batch.\<close>

definition confSend :: "string \<Rightarrow> EmailConfig \<Rightarrow> EmailConfig" where
  "confSend to c = (case email_New (c\<lparr>To := to\<rparr>) of Inl p \<Rightarrow> c\<lparr>To := to\<rparr> | Inr c1 \<Rightarrow> c1)"

definition confSubject :: "Data \<Rightarrow> EmailConfig \<Rightarrow> EmailConfig" where
  "confSubject d c =
     (case Headers c of None \<Rightarrow> c
      | Some hs \<Rightarrow> c\<lparr>Headers := Some (hs(''Subject'' \<mapsto> getSubject d))\<rparr>)"

definition confBatch :: "string list \<Rightarrow> Data \<Rightarrow> EmailConfig \<Rightarrow> EmailConfig" where
  "confBatch tos d c = fold confSend tos (confSubject d c)"

text \<open>The deliveries of the loop over the recipients, from a stored configuration \<open>c\<close>:
  every recipient gets the configuration as it stands after its own \<^verbatim>\<open>sendEmail\<close>.\<close>

fun sends :: "Template option \<Rightarrow> Duration \<Rightarrow> Data \<Rightarrow> EmailConfig \<Rightarrow> string list \<Rightarrow> Delivery list" where
  "sends tm tmo d c [] = []"
| "sends tm tmo d c (to # tos) =
     \<lparr>dl_conf = confSend to c, dl_tmpl = tm, dl_timeout = tmo,
      dl_groupLabels = kvToLabelSet (GroupLabels d), dl_receiverName = Receiver d,
      dl_alerts = map toTypesAlert (Alerts d)\<rparr> # sends tm tmo d (confSend to c) tos"

text \<open>The deliveries of one batch and of a list of batches, from a stored configuration
  \<open>c\<close>: the template carries the parsed external URL of the batch.\<close>

definition batchDeliveries ::
  "(string \<Rightarrow> URL option) \<Rightarrow> EmailNotifier \<Rightarrow> EmailConfig \<Rightarrow> Data \<Rightarrow> Delivery list" where
  "batchDeliveries parse en c d =
     sends (Some \<lparr>tmpl_ExternalURL = parse (ExternalURL d)\<rparr>) (en_Timeout en) d
       (confSubject d c) (en_To en)"

fun allDeliveries ::
  "(string \<Rightarrow> URL option) \<Rightarrow> EmailNotifier \<Rightarrow> EmailConfig \<Rightarrow> Data list \<Rightarrow> Delivery list" where
  "allDeliveries parse en c [] = []"
| "allDeliveries parse en c (d # ds) =
     batchDeliveries parse en c d @ allDeliveries parse en (confBatch (en_To en) d c) ds"

text \<open>A notifier that \<^verbatim>\<open>Notify\<close> can run on: its configuration is in the store with an
  allocated header map, and it has a template.\<close>

definition ready :: "EmailNotifier \<Rightarrow> heap \<Rightarrow> bool" where
  "ready en h =
     ((case en_Config en of None \<Rightarrow> False
       | Some a \<Rightarrow> a < length h \<and> Headers (h ! a) \<noteq> None) \<and>
      en_Template en \<noteq> None)"



text \<open>The struct that \<^verbatim>\<open>Clone\<close> allocates for a base \<open>c\<close>.\<close>

definition clonedConfig :: "EmailConfig \<Rightarrow> EmailConfig" where
  "clonedConfig c =
     \<lparr>VSendResolved = False, To = [], From = From c, Hello = Hello c,
      Smarthost = Smarthost c, AuthUsername = AuthUsername c,
      AuthPassword = AuthPassword c, AuthSecret = AuthSecret c,
      AuthIdentity = AuthIdentity c, Headers = None, HTML = HTML c, Text = Text c,
      RequireTLS = RequireTLS c, TLSConfig = TLSConfig c\<rparr>"

text \<open>The wording of the subject: the part in front of the labels, the rendering
  \<open>key=value\<close> of the labels other than \<^verbatim>\<open>namespace\<close> and \<^verbatim>\<open>alertname\<close> in the
  order in which they come, and the joining with commas.\<close>

definition labelPairs :: "KV \<Rightarrow> string list" where
  "labelPairs kv =
     map (\<lambda>(k, v). k @ ''='' @ v)
       (filter (\<lambda>(k, v). k \<noteq> ''namespace'' \<and> k \<noteq> ''alertname'') kv)"

fun joinComma :: "string list \<Rightarrow> string" where
  "joinComma [] = []"
| "joinComma [p] = p"
| "joinComma (p # q # ps) = p @ '','' @ joinComma (q # ps)"

definition subjectPrefix :: "Data \<Rightarrow> string" where
  "subjectPrefix d =
     (let ns = kv_get (CommonLabels d) ''namespace'';
          alertname = kv_get (CommonLabels d) ''alertname'';
          firingNum = length (Firing (Alerts d));
          resolvedNum = length (Resolved (Alerts d))
      in (if firingNum > 0 then ''[FIRING:'' @ itoa firingNum @ ''] '' else []) @
         (if resolvedNum > 0 then ''[RESOLVED:'' @ itoa resolvedNum @ ''] '' else []) @
         (if ns \<noteq> [] then '' '' @ ns else []) @
         (if alertname \<noteq> [] then (if ns \<noteq> [] then ''/'' else []) @ alertname else []))"

section \<open>Example data\<close>

text \<open>A base configuration with a body and headers of its own, a receiver with two
  recipients that points to it (the base is at address 0), options with a timeout of ten
  seconds, and the notifier and store that the constructor makes of them.\<close>

definition ex_base :: EmailConfig where
  "ex_base =
     \<lparr>VSendResolved = True, To = ''base@example.org'', From = ''alerts@example.org'',
      Hello = ''localhost'', Smarthost = ''smtp.example.org:25'', AuthUsername = ''u'',
      AuthPassword = ''p'', AuthSecret = [], AuthIdentity = [],
      Headers = Some [''X-Team'' \<mapsto> ''ops''], HTML = ''<b>custom</b>'', Text = [],
      RequireTLS = Some 0,
      TLSConfig = \<lparr>CAFile = [], CertFile = [], KeyFile = [], ServerName = [],
                    InsecureSkipVerify = False\<rparr>\<rparr>"

definition ex_receiver :: Email where
  "ex_receiver = \<lparr>recv_To = [''a@example.org'', ''b@example.org''], recv_EmailConfig = Some 0\<rparr>"

definition ex_tmpl :: Template where
  "ex_tmpl = \<lparr>tmpl_ExternalURL = None\<rparr>"

definition ex_opts :: "Options option" where
  "ex_opts = Some \<lparr>opt_NotificationTimeout = Some \<lparr>nt_Email = Some 10\<rparr>\<rparr>"

definition ex_conf :: EmailConfig where
  "ex_conf = (clonedConfig ex_base)\<lparr>Headers := Some Map.empty, HTML := defaultHTML\<rparr>"

definition ex_heap :: heap where
  "ex_heap = [ex_base, ex_conf]"

definition ex_en :: EmailNotifier where
  "ex_en = \<lparr>en_To = [''a@example.org'', ''b@example.org''], en_Config = Some 1,
            en_Template = Some ex_tmpl, en_Timeout = Second * 10\<rparr>"

definition ex_alert :: Alert where
  "ex_alert = \<lparr>Status = ''firing'', Labels = [(''alertname'', ''HighCPU'')], Annotations = [],
               StartsAt = 0, EndsAt = 0, GeneratorURL = []\<rparr>"

definition ex_batch :: Data where
  "ex_batch = \<lparr>Receiver = ''team'', data_Status = ''firing'', Alerts = [ex_alert],
               GroupLabels = [], CommonLabels = [(''alertname'', ''HighCPU'')],
               CommonAnnotations = [], ExternalURL = []\<rparr>"

text \<open>A transport that keeps in the world the list of the deliveries it was handed. It
  panics on a template without external URL and refuses the second recipient. A parser
  that rejects the text \<^verbatim>\<open>:\<close>, as \<^verbatim>\<open>url.Parse\<close> does, and a batch with that text as
  its external URL.\<close>

definition ex_deliver :: "(Delivery list) transport" where
  "ex_deliver w dl =
     ((case dl_tmpl dl of None \<Rightarrow> Panicked
       | Some t \<Rightarrow>
           (case tmpl_ExternalURL t of None \<Rightarrow> Panicked
            | Some u \<Rightarrow>
                if To (dl_conf dl) = ''b@example.org'' then Failed ''refused'' else Delivered)),
      w @ [dl])"

definition ex_parse :: "string \<Rightarrow> URL option" where
  "ex_parse s = (if s = '':'' then None else Some (URL s))"

definition ex_batch_bad :: Data where
  "ex_batch_bad = ex_batch\<lparr>ExternalURL := '':''\<rparr>"

text \<open>The stored configuration and the delivery after the subject and a destination are
  written and the header map is completed; the notifier after the run and the notifier
  with the default timeout; two visiting orders of one label map.\<close>

definition ex_sent_conf :: "string \<Rightarrow> EmailConfig" where
  "ex_sent_conf to =
     ex_conf\<lparr>To := to,
             Headers := Some [''Subject'' \<mapsto> ''[FIRING:1] HighCPU'', ''To'' \<mapsto> ''a@example.org'',
                              ''From'' \<mapsto> ''alerts@example.org'']\<rparr>"

definition ex_en_after :: EmailNotifier where
  "ex_en_after = ex_en\<lparr>en_Template := Some \<lparr>tmpl_ExternalURL = Some (URL [])\<rparr>\<rparr>"

definition ex_en_default :: EmailNotifier where
  "ex_en_default = ex_en\<lparr>en_Timeout := DefaultSendTimeout\<rparr>"

definition ex_delivery :: "string \<Rightarrow> Delivery" where
  "ex_delivery to =
     \<lparr>dl_conf = ex_sent_conf to, dl_tmpl = Some \<lparr>tmpl_ExternalURL = Some (URL [])\<rparr>,
      dl_timeout = Second * 10, dl_groupLabels = Map.empty, dl_receiverName = ''team'',
      dl_alerts = [\<lparr>al_Labels = [''alertname'' \<mapsto> ''HighCPU''], al_Annotations = Map.empty,
                     al_StartsAt = 0, al_EndsAt = 0, al_GeneratorURL = []\<rparr>]\<rparr>"

definition ex_labels1 :: KV where
  "ex_labels1 = [(''zone'', ''eu''), (''app'', ''db'')]"

definition ex_labels2 :: KV where
  "ex_labels2 = [(''app'', ''db''), (''zone'', ''eu'')]"

section \<open>Properties of getSubject\<close>

lemma itoa_1: "itoa (Suc 0) = ''1''"
  by (simp add: itoa.simps digit_def)

lemma labelsLoop_skip:
  "\<forall>(k, v) \<in> set kvs. k = ''namespace'' \<or> k = ''alertname'' \<Longrightarrow> labelsLoop kvs acc = acc"
  by (induction kvs acc rule: labelsLoop.induct) auto

lemma map_of_keys_skip:
  assumes "map_of kvs = [''namespace'' \<mapsto> n, ''alertname'' \<mapsto> a]"
  shows "\<forall>(k, v) \<in> set kvs. k = ''namespace'' \<or> k = ''alertname''"
proof -
  have "fst ` set kvs = dom (map_of kvs)"
    by (simp add: dom_map_of_conv_image_fst)
  also have "\<dots> = {''namespace'', ''alertname''}"
    unfolding assms by auto
  finally show ?thesis by force
qed

text \<open>C9: a batch with no firing alert, no resolved alert and an empty set of common
  labels has the empty string as its subject.\<close>

theorem getSubject_empty:
  assumes "Firing (Alerts d) = []" and "Resolved (Alerts d) = []" and "CommonLabels d = []"
  shows "getSubject d = []"
  using assms by (simp add: getSubject_def kv_get_def)

theorem getSubject_empty_witness:
  "getSubject \<lparr>Receiver = ''r'', data_Status = ''firing'',
      Alerts = [\<lparr>Status = ''pending'', Labels = [], Annotations = [], StartsAt = 0,
                 EndsAt = 0, GeneratorURL = []\<rparr>],
      GroupLabels = [], CommonLabels = [], CommonAnnotations = [(''k'', ''v'')],
      ExternalURL = []\<rparr> = []"
  by (rule getSubject_empty) (simp_all add: Firing_def Resolved_def)

text \<open>C4: a batch whose common labels are exactly namespace = ns1 and
  alertname = HighCPU, with exactly one firing alert and no resolved alert, has the
  subject \<^verbatim>\<open>[FIRING:1]  ns1/HighCPU\<close>, with two spaces after the bracket; this holds
  whatever the order in which the two labels are visited.\<close>

theorem getSubject_golden:
  assumes "map_of (CommonLabels d) = [''namespace'' \<mapsto> ''ns1'', ''alertname'' \<mapsto> ''HighCPU'']"
    and "length (Firing (Alerts d)) = 1" and "Resolved (Alerts d) = []"
  shows "getSubject d = ''[FIRING:1]  ns1/HighCPU''"
proof -
  have "labelsLoop (CommonLabels d) [] = []"
    by (rule labelsLoop_skip) (rule map_of_keys_skip [OF assms(1)])
  then show ?thesis
    using assms by (simp add: getSubject_def kv_get_def itoa_1)
qed

theorem getSubject_golden_witness:
  "getSubject \<lparr>Receiver = ''r'', data_Status = ''firing'',
      Alerts = [\<lparr>Status = ''firing'', Labels = [], Annotations = [], StartsAt = 0,
                 EndsAt = 0, GeneratorURL = []\<rparr>],
      GroupLabels = [],
      CommonLabels = [(''alertname'', ''HighCPU''), (''namespace'', ''ns1'')],
      CommonAnnotations = [], ExternalURL = []\<rparr> = ''[FIRING:1]  ns1/HighCPU''"
  by (rule getSubject_golden) (auto simp add: Firing_def Resolved_def)

section \<open>The labels in the subject\<close>

lemma labelsLoop_concat:
  "labelsLoop kvs acc = acc @ concat (map (\<lambda>p. p @ '','') (labelPairs kvs))"
  by (induction kvs acc rule: labelsLoop.induct) (simp_all add: labelPairs_def)

lemma concat_joinComma:
  "ps \<noteq> [] \<Longrightarrow> concat (map (\<lambda>p. p @ '','') ps) = joinComma ps @ '',''"
  by (induction ps rule: joinComma.induct) simp_all

lemma TrimSuffix_comma: "TrimSuffix (x @ '','') '','' = x"
  by (simp add: TrimSuffix_def)

text \<open>C2, as the code has it: the common labels other than \<^verbatim>\<open>namespace\<close> and
  \<^verbatim>\<open>alertname\<close> appear in the subject as \<open>key=value\<close> pairs joined by commas, in the
  order in which the range over the label map visits them. The code does not sort. The
  subject is a function of the alerts and of the labels in their visiting order, so two
  syntheses that visit the labels in the same order give the same bytes.\<close>

theorem getSubject_labels_in_visiting_order:
  "getSubject d =
     subjectPrefix d @
     (if labelPairs (CommonLabels d) = [] then []
      else '' ('' @ joinComma (labelPairs (CommonLabels d)) @ '')'')"
proof (cases "labelPairs (CommonLabels d) = []")
  case True
  then have "labelsLoop (CommonLabels d) [] = []"
    by (simp add: labelsLoop_concat)
  with True show ?thesis
    by (simp add: getSubject_def subjectPrefix_def Let_def)
next
  case False
  then have l: "labelsLoop (CommonLabels d) [] = joinComma (labelPairs (CommonLabels d)) @ '',''"
    by (simp add: labelsLoop_concat concat_joinComma)
  have "TrimSuffix (labelsLoop (CommonLabels d) []) '','' = joinComma (labelPairs (CommonLabels d))"
    unfolding l by (rule TrimSuffix_comma)
  moreover have "length (labelsLoop (CommonLabels d) []) > 0" unfolding l by simp
  ultimately show ?thesis
    using False by (simp add: getSubject_def subjectPrefix_def Let_def)
qed

theorem getSubject_labels_in_visiting_order_witness:
  "getSubject (ex_batch\<lparr>CommonLabels := ex_labels1\<rparr>) = ''[FIRING:1]  (zone=eu,app=db)''"
  using getSubject_labels_in_visiting_order [of "ex_batch\<lparr>CommonLabels := ex_labels1\<rparr>"]
  by (simp add: subjectPrefix_def labelPairs_def ex_labels1_def ex_batch_def ex_alert_def
      kv_get_def Firing_def Resolved_def itoa_1)

text \<open>C2 as stated fails: one label map, visited as zone, app or as app, zone, gives two
  different subjects, and in the first the keys are not in sorted order.\<close>

theorem getSubject_sorted_counterexample:
  "map_of ex_labels1 = map_of ex_labels2 \<and>
   getSubject (ex_batch\<lparr>CommonLabels := ex_labels1\<rparr>) = ''[FIRING:1]  (zone=eu,app=db)'' \<and>
   getSubject (ex_batch\<lparr>CommonLabels := ex_labels2\<rparr>) = ''[FIRING:1]  (app=db,zone=eu)'' \<and>
   \<not> sorted (map fst ex_labels1) \<and>
   getSubject (ex_batch\<lparr>CommonLabels := ex_labels1\<rparr>) \<noteq>
     getSubject (ex_batch\<lparr>CommonLabels := ex_labels2\<rparr>)"
proof -
  have m: "map_of ex_labels1 = map_of ex_labels2"
    by (rule ext) (simp add: ex_labels1_def ex_labels2_def)
  have s1: "getSubject (ex_batch\<lparr>CommonLabels := ex_labels1\<rparr>) = ''[FIRING:1]  (zone=eu,app=db)''"
    by (simp add: getSubject_def ex_labels1_def ex_batch_def ex_alert_def
      kv_get_def Firing_def Resolved_def itoa_1 TrimSuffix_def)
  have s2: "getSubject (ex_batch\<lparr>CommonLabels := ex_labels2\<rparr>) = ''[FIRING:1]  (app=db,zone=eu)''"
    by (simp add: getSubject_def ex_labels2_def ex_batch_def ex_alert_def
      kv_get_def Firing_def Resolved_def itoa_1 TrimSuffix_def)
  have ns: "\<not> sorted (map fst ex_labels1)"
    by (simp add: ex_labels1_def)
  show ?thesis unfolding s1 s2 using m ns by simp
qed

section \<open>The stored configuration and the dispatch loop\<close>

lemma errorsOf_append: "errorsOf (xs @ ys) = errorsOf xs @ errorsOf ys"
  by (induction xs rule: errorsOf.induct) simp_all

lemma email_New_allocated:
  assumes "Headers c = Some hs"
  shows "\<exists>hs'. email_New c = Inr (c\<lparr>Headers := Some hs'\<rparr>) \<and>
           (\<forall>k v. hs k = Some v \<longrightarrow> hs' k = Some v)"
  using assms
  apply (auto simp add: email_New_def setDefaultHeader_def split: option.splits)
        apply (rule exI, rule conjI, rule refl, simp)+
  done

lemma confSend_email_New:
  assumes "Headers c \<noteq> None"
  shows "email_New (c\<lparr>To := to\<rparr>) = Inr (confSend to c)"
proof -
  from assms obtain hs where "Headers (c\<lparr>To := to\<rparr>) = Some hs" by auto
  from email_New_allocated [OF this] show ?thesis by (auto simp add: confSend_def)
qed

lemma Headers_confSend:
  assumes "Headers c = Some hs"
  shows "\<exists>hs'. Headers (confSend to c) = Some hs' \<and> (\<forall>k v. hs k = Some v \<longrightarrow> hs' k = Some v)"
proof -
  from assms have "Headers (c\<lparr>To := to\<rparr>) = Some hs" by simp
  from email_New_allocated [OF this] show ?thesis by (auto simp add: confSend_def)
qed

lemma Headers_confSend_allocated: "Headers c \<noteq> None \<Longrightarrow> Headers (confSend to c) \<noteq> None"
  using Headers_confSend [of c _ to] by auto

lemma To_confSend [simp]: "To (confSend to c) = to"
  by (auto simp add: confSend_def email_New_def setDefaultHeader_def split: option.splits sum.splits)

lemma HTML_confSend [simp]: "HTML (confSend to c) = HTML c"
  by (auto simp add: confSend_def email_New_def setDefaultHeader_def split: option.splits sum.splits)

lemma sendEmail_eq:
  assumes "en_Config (run_en r) = Some a" and "a < length (run_heap r)"
    and "Headers (run_heap r ! a) \<noteq> None"
  shows "sendEmail deliver d as to r =
     (case deliver (run_world r)
             \<lparr>dl_conf = confSend to (run_heap r ! a), dl_tmpl = en_Template (run_en r),
              dl_timeout = en_Timeout (run_en r), dl_groupLabels = kvToLabelSet (GroupLabels d),
              dl_receiverName = Receiver d, dl_alerts = as\<rparr> of
        (Delivered, w1) \<Rightarrow>
          Inr (r\<lparr>run_heap := (run_heap r)[a := confSend to (run_heap r ! a)], run_world := w1\<rparr>)
      | (Failed e, w1) \<Rightarrow>
          Inr (r\<lparr>run_heap := (run_heap r)[a := confSend to (run_heap r ! a)], run_world := w1,
                 run_errs := run_errs r @ [e]\<rparr>)
      | (Panicked, w1) \<Rightarrow> Inl TransportPanic)"
  using assms confSend_email_New [OF assms(3), of to]
  by (simp add: sendEmail_def modify_def deref_def Let_def)

lemma sendAll_eq:
  assumes "en_Config (run_en r) = Some a" and "a < length (run_heap r)"
    and "Headers (run_heap r ! a) \<noteq> None"
  shows "sendAll deliver d (map toTypesAlert (Alerts d)) tos r =
     (case attempts deliver (run_world r)
             (sends (en_Template (run_en r)) (en_Timeout (run_en r)) d (run_heap r ! a) tos) of
        (rs, w') \<Rightarrow>
          if Panicked \<in> set rs then Inl TransportPanic
          else Inr (r\<lparr>run_heap := (run_heap r)[a := fold confSend tos (run_heap r ! a)],
                      run_world := w', run_errs := run_errs r @ errorsOf rs\<rparr>))"
  using assms
proof (induction tos arbitrary: r)
  case Nil
  then show ?case by (simp add: list_update_same_conv)
next
  case (Cons to tos)
  let ?c = "confSend to (run_heap r ! a)"
  let ?dl = "\<lparr>dl_conf = ?c, dl_tmpl = en_Template (run_en r),
              dl_timeout = en_Timeout (run_en r), dl_groupLabels = kvToLabelSet (GroupLabels d),
              dl_receiverName = Receiver d, dl_alerts = map toTypesAlert (Alerts d)\<rparr>"
  obtain res w1 where dv: "deliver (run_world r) ?dl = (res, w1)" by (cases "deliver (run_world r) ?dl")
  note se = sendEmail_eq [OF Cons.prems, of deliver d "map toTypesAlert (Alerts d)" to, unfolded dv]
  have hc: "Headers ?c \<noteq> None" using Cons.prems(3) by (rule Headers_confSend_allocated)
  show ?case
  proof (cases res)
    case Panicked
    then show ?thesis using se dv by simp
  next
    case Delivered
    let ?r1 = "r\<lparr>run_heap := (run_heap r)[a := ?c], run_world := w1\<rparr>"
    have s: "sendEmail deliver d (map toTypesAlert (Alerts d)) to r = Inr ?r1"
      using se Delivered by simp
    have p: "en_Config (run_en ?r1) = Some a" "a < length (run_heap ?r1)"
      "Headers (run_heap ?r1 ! a) \<noteq> None"
      using Cons.prems hc by simp_all
    show ?thesis
      using Cons.IH [OF p] s dv Delivered Cons.prems(2)
      by (auto split: prod.splits)
  next
    case (Failed e)
    let ?r1 = "r\<lparr>run_heap := (run_heap r)[a := ?c], run_world := w1, run_errs := run_errs r @ [e]\<rparr>"
    have s: "sendEmail deliver d (map toTypesAlert (Alerts d)) to r = Inr ?r1"
      using se Failed by simp
    have p: "en_Config (run_en ?r1) = Some a" "a < length (run_heap ?r1)"
      "Headers (run_heap ?r1 ! a) \<noteq> None"
      using Cons.prems hc by simp_all
    show ?thesis
      using Cons.IH [OF p] s dv Failed Cons.prems(2)
      by (auto split: prod.splits)
  qed
qed

lemma Headers_confSubject_allocated: "Headers c \<noteq> None \<Longrightarrow> Headers (confSubject d c) \<noteq> None"
  by (auto simp add: confSubject_def)

lemma Headers_fold_confSend_allocated:
  "Headers c \<noteq> None \<Longrightarrow> Headers (fold confSend tos c) \<noteq> None"
proof (induction tos arbitrary: c)
  case Nil
  then show ?case by simp
next
  case (Cons to tos)
  from Cons.IH [OF Headers_confSend_allocated [OF Cons.prems, of to]]
  show ?case by simp
qed

lemma Headers_confBatch_allocated: "Headers c \<noteq> None \<Longrightarrow> Headers (confBatch tos d c) \<noteq> None"
  by (simp add: confBatch_def Headers_fold_confSend_allocated Headers_confSubject_allocated)

lemma Headers_fold_confBatch_allocated:
  "Headers c \<noteq> None \<Longrightarrow> Headers (fold (confBatch tos) data c) \<noteq> None"
proof (induction data arbitrary: c)
  case Nil
  then show ?case by simp
next
  case (Cons d ds)
  from Cons.IH [OF Headers_confBatch_allocated [OF Cons.prems, of tos d]]
  show ?case by simp
qed

lemma notifyBatch_eq:
  assumes "en_Config (run_en r) = Some a" and "a < length (run_heap r)"
    and "Headers (run_heap r ! a) \<noteq> None" and "en_Template (run_en r) \<noteq> None"
  shows "notifyBatch deliver parse d r =
     (case attempts deliver (run_world r) (batchDeliveries parse (run_en r) (run_heap r ! a) d) of
        (rs, w') \<Rightarrow>
          if Panicked \<in> set rs then Inl TransportPanic
          else Inr (r\<lparr>run_en := (run_en r)\<lparr>en_Template :=
                                   Some \<lparr>tmpl_ExternalURL = parse (ExternalURL d)\<rparr>\<rparr>,
                      run_heap := (run_heap r)[a := confBatch (en_To (run_en r)) d (run_heap r ! a)],
                      run_world := w', run_errs := run_errs r @ errorsOf rs\<rparr>))"
proof -
  from assms(3) obtain hs where hs: "Headers (run_heap r ! a) = Some hs" by auto
  from assms(4) obtain t where t: "en_Template (run_en r) = Some t" by auto
  define en1 where "en1 = (run_en r)\<lparr>en_Template := Some \<lparr>tmpl_ExternalURL = parse (ExternalURL d)\<rparr>\<rparr>"
  define r1 where "r1 = r\<lparr>run_en := en1, run_heap := (run_heap r)[a := confSubject d (run_heap r ! a)]\<rparr>"
  have t_eq: "t\<lparr>tmpl_ExternalURL := parse (ExternalURL d)\<rparr> = \<lparr>tmpl_ExternalURL = parse (ExternalURL d)\<rparr>"
    by (cases t) simp
  have nb: "notifyBatch deliver parse d r =
      sendAll deliver d (map toTypesAlert (Alerts d)) (en_To (run_en r)) r1"
    using assms(1,2) hs t
    by (simp add: notifyBatch_def deref_def modify_def Let_def en1_def r1_def confSubject_def t_eq)
  have p: "en_Config (run_en r1) = Some a" "a < length (run_heap r1)"
    "Headers (run_heap r1 ! a) \<noteq> None"
    using assms(1,2) Headers_confSubject_allocated [OF assms(3), of d]
    by (simp_all add: r1_def en1_def)
  show ?thesis
    unfolding nb sendAll_eq [OF p]
    using assms(2)
    by (simp add: r1_def en1_def batchDeliveries_def confBatch_def split: prod.splits)
qed

lemma attempts_append:
  "attempts deliver w (xs @ ys) =
     (case attempts deliver w xs of
        (rs, w1) \<Rightarrow>
          if Panicked \<in> set rs then (rs, w1)
          else (case attempts deliver w1 ys of (rs2, w2) \<Rightarrow> (rs @ rs2, w2)))"
proof (induction xs arbitrary: w)
  case Nil
  then show ?case by simp
next
  case (Cons x xs)
  obtain res w1 where d: "deliver w x = (res, w1)" by (cases "deliver w x")
  show ?case
    using Cons.IH [of w1] d
    by (cases res) (auto split: prod.splits)
qed

lemma batchDeliveries_template [simp]:
  "batchDeliveries parse (en\<lparr>en_Template := tm\<rparr>) c d = batchDeliveries parse en c d"
  by (simp add: batchDeliveries_def)

lemma allDeliveries_template [simp]:
  "allDeliveries parse (en\<lparr>en_Template := tm\<rparr>) c ds = allDeliveries parse en c ds"
  by (induction ds arbitrary: c) simp_all

lemma notifyLoop_eq:
  assumes "en_Config (run_en r) = Some a" and "a < length (run_heap r)"
    and "Headers (run_heap r ! a) \<noteq> None" and "en_Template (run_en r) \<noteq> None"
  shows "notifyLoop deliver parse data r =
     (case attempts deliver (run_world r) (allDeliveries parse (run_en r) (run_heap r ! a) data) of
        (rs, w') \<Rightarrow>
          if Panicked \<in> set rs then Inl TransportPanic
          else Inr (r\<lparr>run_en := (if data = [] then run_en r
                                  else (run_en r)\<lparr>en_Template :=
                                    Some \<lparr>tmpl_ExternalURL = parse (ExternalURL (last data))\<rparr>\<rparr>),
                      run_heap := (run_heap r)[a := fold (confBatch (en_To (run_en r))) data (run_heap r ! a)],
                      run_world := w', run_errs := run_errs r @ errorsOf rs\<rparr>))"
  using assms
proof (induction data arbitrary: r)
  case Nil
  then show ?case by (simp add: list_update_same_conv)
next
  case (Cons d ds)
  let ?c = "run_heap r ! a"
  obtain rs1 w1 where a1: "attempts deliver (run_world r) (batchDeliveries parse (run_en r) ?c d) = (rs1, w1)"
    by (cases "attempts deliver (run_world r) (batchDeliveries parse (run_en r) ?c d)")
  note nb = notifyBatch_eq [OF Cons.prems, of deliver parse d, unfolded a1]
  show ?case
  proof (cases "Panicked \<in> set rs1")
    case True
    then show ?thesis using nb a1 by (simp add: attempts_append)
  next
    case False
    let ?r1 = "r\<lparr>run_en := (run_en r)\<lparr>en_Template :=
                                   Some \<lparr>tmpl_ExternalURL = parse (ExternalURL d)\<rparr>\<rparr>,
                      run_heap := (run_heap r)[a := confBatch (en_To (run_en r)) d ?c],
                      run_world := w1, run_errs := run_errs r @ errorsOf rs1\<rparr>"
    have s: "notifyBatch deliver parse d r = Inr ?r1" using nb False by simp
    have p: "en_Config (run_en ?r1) = Some a" "a < length (run_heap ?r1)"
      "Headers (run_heap ?r1 ! a) \<noteq> None" "en_Template (run_en ?r1) \<noteq> None"
      using Cons.prems Headers_confBatch_allocated [OF Cons.prems(3), of "en_To (run_en r)" d]
      by simp_all
    show ?thesis
      using Cons.IH [OF p] s a1 False Cons.prems(2)
      by (auto simp add: attempts_append errorsOf_append split: prod.splits)
  qed
qed

lemma Notify_eq:
  assumes "en_Config en = Some a" and "a < length h"
    and "Headers (h ! a) \<noteq> None" and "en_Template en \<noteq> None"
  shows "Notify deliver parse en data h w =
     (case attempts deliver w (allDeliveries parse en (h ! a) data) of
        (rs, w') \<Rightarrow>
          if Panicked \<in> set rs then Inl TransportPanic
          else Inr \<lparr>run_en = (if data = [] then en
                               else en\<lparr>en_Template :=
                                    Some \<lparr>tmpl_ExternalURL = parse (ExternalURL (last data))\<rparr>\<rparr>),
                     run_heap = h[a := fold (confBatch (en_To en)) data (h ! a)],
                     run_world = w', run_errs = errorsOf rs\<rparr>)"
proof -
  let ?r0 = "\<lparr>run_en = en, run_heap = h, run_world = w, run_errs = []\<rparr>"
  have p: "en_Config (run_en ?r0) = Some a" "a < length (run_heap ?r0)"
    "Headers (run_heap ?r0 ! a) \<noteq> None" "en_Template (run_en ?r0) \<noteq> None"
    using assms by simp_all
  show ?thesis
    unfolding Notify_def notifyLoop_eq [OF p]
    by (simp split: prod.splits)
qed

lemma ready_parts:
  assumes "ready en h" and "en_Config en = Some a"
  shows "a < length h" and "Headers (h ! a) \<noteq> None" and "en_Template en \<noteq> None"
  using assms by (simp_all add: ready_def)

lemma Notify_world:
  assumes "ready en h" and "en_Config en = Some a"
  shows "case Notify deliver parse en data h w of
           Inl p \<Rightarrow> p = TransportPanic
         | Inr r \<Rightarrow> run_world r = snd (attempts deliver w (allDeliveries parse en (h ! a) data)) \<and>
             run_heap r = h[a := fold (confBatch (en_To en)) data (h ! a)]"
proof -
  note p = ready_parts [OF assms]
  obtain rs w' where at: "attempts deliver w (allDeliveries parse en (h ! a) data) = (rs, w')"
    by (cases "attempts deliver w (allDeliveries parse en (h ! a) data)")
  show ?thesis by (simp add: Notify_eq [OF assms(2) p] at)
qed

section \<open>The deliveries handed to the transport\<close>



lemma To_confSubject [simp]: "To (confSubject d c) = To c"
  by (simp add: confSubject_def split: option.splits)

lemma HTML_confSubject [simp]: "HTML (confSubject d c) = HTML c"
  by (simp add: confSubject_def split: option.splits)


lemma HTML_fold_confSend [simp]: "HTML (fold confSend tos c) = HTML c"
  by (induction tos arbitrary: c) simp_all



lemma HTML_confBatch [simp]: "HTML (confBatch tos d c) = HTML c"
  by (simp add: confBatch_def)



lemma HTML_fold_confBatch [simp]: "HTML (fold (confBatch tos) data c) = HTML c"
  by (induction data arbitrary: c) simp_all



lemma sends_timeout: "map dl_timeout (sends tm tmo d c tos) = replicate (length tos) tmo"
  by (induction tos arbitrary: c) simp_all

lemma sends_HTML: "map (\<lambda>dl. HTML (dl_conf dl)) (sends tm tmo d c tos) = replicate (length tos) (HTML c)"
  by (induction tos arbitrary: c) simp_all




lemma allDeliveries_timeout:
  "map dl_timeout (allDeliveries parse en c data) =
     replicate (length data * length (en_To en)) (en_Timeout en)"
  by (induction data arbitrary: c) (simp_all add: batchDeliveries_def sends_timeout replicate_add)

lemma allDeliveries_HTML:
  "map (\<lambda>dl. HTML (dl_conf dl)) (allDeliveries parse en c data) =
     replicate (length data * length (en_To en)) (HTML c)"
  by (induction data arbitrary: c) (simp_all add: batchDeliveries_def sends_HTML replicate_add)






section \<open>Clone and the constructor\<close>

lemma Clone_Some:
  assumes "Clone (Some b) h = Inr (p, h')"
  shows "b < length h \<and> RequireTLS (h ! b) \<noteq> None \<and> p = Some (length h) \<and>
         h' = h @ [clonedConfig (h ! b)]"
  using assms
  by (auto simp add: Clone_def deref_def alloc_def clonedConfig_def
      split: if_splits option.splits)

lemma Clone_None: "Clone None h = Inr (None, h)"
  by (simp add: Clone_def)

lemma NewEmailNotifier_Some:
  assumes "NewEmailNotifier fromGlobs val opts h = Inr (Some en, h')"
  shows "\<exists>receiver b tmpl.
           val = EmailPtr (Some receiver) \<and> recv_EmailConfig receiver = Some b \<and>
           b < length h \<and> RequireTLS (h ! b) \<noteq> None \<and> fromGlobs = Inr tmpl \<and>
           en = \<lparr>en_To = recv_To receiver, en_Config = Some (length h),
                 en_Template = Some tmpl,
                 en_Timeout = (case optsEmail opts of None \<Rightarrow> DefaultSendTimeout
                               | Some t \<Rightarrow> Second * scast t)\<rparr> \<and>
           h' = h @ [(clonedConfig (h ! b))\<lparr>Headers := Some Map.empty, HTML := defaultHTML\<rparr>]"
proof (cases val)
  case NilValue
  with assms show ?thesis by (simp add: NewEmailNotifier_def)
next
  case OtherValue
  with assms show ?thesis by (simp add: NewEmailNotifier_def)
next
  case (EmailPtr rp)
  show ?thesis
  proof (cases rp)
    case None
    with assms EmailPtr show ?thesis by (simp add: NewEmailNotifier_def)
  next
    case (Some receiver)
    show ?thesis
    proof (cases "recv_EmailConfig receiver")
      case None
      with assms EmailPtr Some show ?thesis
        by (simp add: NewEmailNotifier_def Clone_None)
    next
      case (Some b)
      note b = this
      show ?thesis
      proof (cases "Clone (Some b) h")
        case (Inl p)
        with assms EmailPtr \<open>rp = Some receiver\<close> b show ?thesis
          by (simp add: NewEmailNotifier_def)
      next
        case (Inr res)
        obtain p h1 where res: "res = (p, h1)" by (cases res)
        from Clone_Some [OF Inr [unfolded res]]
        have c: "b < length h" "RequireTLS (h ! b) \<noteq> None" "p = Some (length h)"
          "h1 = h @ [clonedConfig (h ! b)]" by simp_all
        from assms EmailPtr \<open>rp = Some receiver\<close> b Inr res c show ?thesis
          by (cases fromGlobs; cases "optsEmail opts")
            (simp_all add: NewEmailNotifier_def modify_def Let_def clonedConfig_def)
      qed
    qed
  qed
qed

lemma NewEmailNotifier_ready:
  assumes "NewEmailNotifier fromGlobs val opts h = Inr (Some en, h')"
  shows "ready en h'"
  using NewEmailNotifier_Some [OF assms] by (auto simp add: ready_def)

lemma readyD:
  assumes "ready en h"
  shows "\<exists>a hs t. en_Config en = Some a \<and> a < length h \<and> Headers (h ! a) = Some hs \<and>
           en_Template en = Some t"
  using assms by (auto simp add: ready_def split: option.splits)

section \<open>The example runs\<close>

lemma ex_construct:
  "NewEmailNotifier (Inr ex_tmpl) (EmailPtr (Some ex_receiver)) ex_opts [ex_base] = Inr (Some ex_en, ex_heap)"
  by (simp add: NewEmailNotifier_def Clone_def deref_def modify_def alloc_def Let_def
      ex_receiver_def ex_base_def ex_en_def ex_heap_def ex_conf_def clonedConfig_def
      ex_opts_def optsEmail_def)


lemma ex_subject: "getSubject ex_batch = ''[FIRING:1] HighCPU''"
  by (simp add: getSubject_def ex_batch_def ex_alert_def kv_get_def Firing_def Resolved_def itoa_1)

lemma ex_run:
  "Notify ex_deliver ex_parse ex_en [ex_batch] ex_heap [] =
     Inr \<lparr>run_en = ex_en_after, run_heap = [ex_base, ex_sent_conf ''b@example.org''],
          run_world = [ex_delivery ''a@example.org'', ex_delivery ''b@example.org''],
          run_errs = [''refused'']\<rparr>"
  by (simp add: Notify_def notifyBatch_def sendEmail_def deref_def modify_def Let_def
      email_New_def setDefaultHeader_def
      ex_subject ex_en_def ex_en_after_def ex_heap_def ex_conf_def ex_tmpl_def ex_parse_def
      ex_deliver_def ex_sent_conf_def ex_delivery_def toTypesAlert_def kvToLabelSet_def
      clonedConfig_def ex_base_def
      ex_batch_def [THEN arg_cong [where f = Alerts]] ex_batch_def [THEN arg_cong [where f = GroupLabels]]
      ex_batch_def [THEN arg_cong [where f = Receiver]] ex_batch_def [THEN arg_cong [where f = ExternalURL]]
      ex_alert_def)


lemma ex_subject_bad: "getSubject ex_batch_bad = ''[FIRING:1] HighCPU''"
  using ex_subject by (simp add: ex_batch_bad_def getSubject_def)


lemma ex_run_bad:
  "Notify ex_deliver ex_parse ex_en [ex_batch_bad] ex_heap [] = Inl TransportPanic"
  by (simp add: Notify_def notifyBatch_def sendEmail_def deref_def modify_def Let_def
      email_New_def setDefaultHeader_def ex_subject_bad
      ex_en_def ex_heap_def ex_conf_def ex_tmpl_def ex_parse_def
      ex_deliver_def clonedConfig_def ex_base_def ex_batch_bad_def)


section \<open>Properties of Notify\<close>






section \<open>Properties of the constructor\<close>

text \<open>C6: when \<^verbatim>\<open>NewEmailNotifier\<close> returns a notifier, the header map of its
  configuration is allocated. For every transport, parser and list of batches,
  \<^verbatim>\<open>Notify\<close> on it panics only when the transport panics at one of the deliveries: the
  writes of the \<^verbatim>\<open>Subject\<close> header, and of the headers that \<^verbatim>\<open>email.New\<close> completes,
  never find a nil map. When \<^verbatim>\<open>Notify\<close> returns, the header map is still allocated.\<close>

theorem NewEmailNotifier_Headers_allocated:
  assumes "NewEmailNotifier fromGlobs val opts h = Inr (Some en, h')"
  shows "\<exists>a c hs. en_Config en = Some a \<and> deref h' (Some a) = Inr c \<and> Headers c = Some hs \<and>
           (case Notify deliver parse en data h' w of
              Inl p \<Rightarrow> p = TransportPanic \<and>
                Panicked \<in> set (fst (attempts deliver w (allDeliveries parse en c data)))
            | Inr r \<Rightarrow>
                Panicked \<notin> set (fst (attempts deliver w (allDeliveries parse en c data))) \<and>
                (\<exists>c' hs'. deref (run_heap r) (Some a) = Inr c' \<and> Headers c' = Some hs'))"
proof -
  note rd = NewEmailNotifier_ready [OF assms]
  from readyD [OF rd] obtain a hs t where
    c: "en_Config en = Some a" and hs: "Headers (h' ! a) = Some hs"
    by blast
  note p = ready_parts [OF rd c]
  let ?dls = "allDeliveries parse en (h' ! a) data"
  obtain rs w' where at: "attempts deliver w ?dls = (rs, w')" by (cases "attempts deliver w ?dls")
  have al: "Headers (fold (confBatch (en_To en)) data (h' ! a)) \<noteq> None"
    using p(2) by (rule Headers_fold_confBatch_allocated)
  have "case Notify deliver parse en data h' w of
              Inl p \<Rightarrow> p = TransportPanic \<and> Panicked \<in> set (fst (attempts deliver w ?dls))
            | Inr r \<Rightarrow> Panicked \<notin> set (fst (attempts deliver w ?dls)) \<and>
                (\<exists>c' hs'. deref (run_heap r) (Some a) = Inr c' \<and> Headers c' = Some hs')"
    using al p(1) by (auto simp add: Notify_eq [OF c p] at deref_def)
  with c hs p(1) show ?thesis by (simp add: deref_def)
qed

theorem NewEmailNotifier_Headers_allocated_witness:
  "NewEmailNotifier (Inr ex_tmpl) (EmailPtr (Some ex_receiver)) ex_opts [ex_base] =
     Inr (Some ex_en, ex_heap) \<and>
   deref ex_heap (Some 1) = Inr ex_conf \<and> Headers ex_conf = Some Map.empty \<and>
   Notify ex_deliver ex_parse ex_en [ex_batch] ex_heap [] =
     Inr \<lparr>run_en = ex_en_after, run_heap = [ex_base, ex_sent_conf ''b@example.org''],
          run_world = [ex_delivery ''a@example.org'', ex_delivery ''b@example.org''],
          run_errs = [''refused'']\<rparr> \<and>
   Panicked \<notin> set (fst (attempts ex_deliver [] (allDeliveries ex_parse ex_en ex_conf [ex_batch]))) \<and>
   Notify ex_deliver ex_parse ex_en [ex_batch_bad] ex_heap [] = Inl TransportPanic \<and>
   Panicked \<in> set (fst (attempts ex_deliver [] (allDeliveries ex_parse ex_en ex_conf [ex_batch_bad])))"
proof -
  have d: "deref ex_heap (Some 1) = Inr ex_conf" "Headers ex_conf = Some Map.empty"
    "en_Config ex_en = Some 1"
    by (simp_all add: deref_def ex_heap_def ex_conf_def ex_en_def)
  from NewEmailNotifier_Headers_allocated [OF ex_construct, of ex_deliver "[]" ex_parse "[ex_batch]"]
    NewEmailNotifier_Headers_allocated [OF ex_construct, of ex_deliver "[]" ex_parse "[ex_batch_bad]"]
  show ?thesis
    using ex_construct d by (auto simp add: ex_run ex_run_bad)
qed

lemma sint_seconds: "sint (Second * scast (t :: 32 word)) = 1000000000 * sint t"
proof -
  have b: "- (2 ^ 31) \<le> sint t" "sint t < 2 ^ 31"
    using sint_ge [of t] sint_lt [of t] by simp_all
  have "sint (1000000000 * (scast t :: 64 word)) =
        signed_take_bit 63 (1000000000 * sint (scast t :: 64 word))"
    by (simp add: sint_word_ariths)
  also have "sint (scast t :: 64 word) = sint t"
    by (simp add: sint_up_scast is_up)
  also have "signed_take_bit 63 (1000000000 * sint t) = 1000000000 * sint t"
    using b by (simp add: signed_take_bit_int_eq_self)
  finally show ?thesis by (simp add: Second_def)
qed

lemma sint_DefaultSendTimeout: "sint DefaultSendTimeout = 1000000000 * 3"
  by (simp add: DefaultSendTimeout_def Second_def)

text \<open>C7: the timeout of a constructed notifier is 3 seconds when the options are nil, or
  their \<^verbatim>\<open>NotificationTimeout\<close> is nil, or its \<^verbatim>\<open>Email\<close> is nil, and otherwise it is
  the number of seconds that \<^verbatim>\<open>Email\<close> points to; the multiplication by
  \<^verbatim>\<open>time.Second\<close> does not overflow. Every delivery of every batch is handed to the
  transport with this timeout as its deadline.\<close>

theorem NewEmailNotifier_Timeout:
  assumes "NewEmailNotifier fromGlobs val opts h = Inr (Some en, h')"
  shows "sint (en_Timeout en) =
           1000000000 *
             (case opts of None \<Rightarrow> 3
              | Some os \<Rightarrow>
                  (case opt_NotificationTimeout os of None \<Rightarrow> 3
                   | Some nt \<Rightarrow> (case nt_Email nt of None \<Rightarrow> 3 | Some t \<Rightarrow> sint t))) \<and>
         (\<exists>a c. en_Config en = Some a \<and> deref h' (Some a) = Inr c \<and>
            map dl_timeout (allDeliveries parse en c data) =
              replicate (length data * length (en_To en)) (en_Timeout en) \<and>
            (case Notify deliver parse en data h' w of
               Inl p \<Rightarrow> p = TransportPanic
             | Inr r \<Rightarrow> run_world r = snd (attempts deliver w (allDeliveries parse en c data))))"
proof -
  from NewEmailNotifier_Some [OF assms]
  have "en_Timeout en = (case optsEmail opts of None \<Rightarrow> DefaultSendTimeout
                         | Some t \<Rightarrow> Second * scast t)"
    by auto
  then have t: "sint (en_Timeout en) =
           1000000000 *
             (case opts of None \<Rightarrow> 3
              | Some os \<Rightarrow>
                  (case opt_NotificationTimeout os of None \<Rightarrow> 3
                   | Some nt \<Rightarrow> (case nt_Email nt of None \<Rightarrow> 3 | Some t \<Rightarrow> sint t)))"
    by (simp add: optsEmail_def sint_seconds sint_DefaultSendTimeout split: option.splits)
  note rd = NewEmailNotifier_ready [OF assms]
  from readyD [OF rd] obtain a where c: "en_Config en = Some a" by blast
  note p = ready_parts [OF rd c]
  have "case Notify deliver parse en data h' w of
               Inl p \<Rightarrow> p = TransportPanic
             | Inr r \<Rightarrow> run_world r = snd (attempts deliver w (allDeliveries parse en (h' ! a) data))"
    using Notify_world [OF rd c, where deliver = deliver and parse = parse and data = data and w = w] by (simp split: sum.splits)
  with t c p(1) show ?thesis by (simp add: deref_def allDeliveries_timeout)
qed

theorem NewEmailNotifier_Timeout_witness:
  "NewEmailNotifier (Inr ex_tmpl) (EmailPtr (Some ex_receiver)) ex_opts [ex_base] =
     Inr (Some ex_en, ex_heap) \<and>
   sint (en_Timeout ex_en) = 1000000000 * 10 \<and>
   NewEmailNotifier (Inr ex_tmpl) (EmailPtr (Some ex_receiver)) None [ex_base] =
     Inr (Some ex_en_default, ex_heap) \<and>
   sint (en_Timeout ex_en_default) = 1000000000 * 3 \<and>
   NewEmailNotifier (Inr ex_tmpl) (EmailPtr (Some ex_receiver))
     (Some \<lparr>opt_NotificationTimeout = Some \<lparr>nt_Email = None\<rparr>\<rparr>) [ex_base] =
     Inr (Some ex_en_default, ex_heap) \<and>
   Notify ex_deliver ex_parse ex_en [ex_batch] ex_heap [] =
     Inr \<lparr>run_en = ex_en_after, run_heap = [ex_base, ex_sent_conf ''b@example.org''],
          run_world = [ex_delivery ''a@example.org'', ex_delivery ''b@example.org''],
          run_errs = [''refused'']\<rparr> \<and>
   map dl_timeout [ex_delivery ''a@example.org'', ex_delivery ''b@example.org''] =
     [en_Timeout ex_en, en_Timeout ex_en] \<and>
   snd (attempts ex_deliver [] (allDeliveries ex_parse ex_en ex_conf [ex_batch])) =
     [ex_delivery ''a@example.org'', ex_delivery ''b@example.org'']"
proof -
  have c: "NewEmailNotifier (Inr ex_tmpl) (EmailPtr (Some ex_receiver)) None [ex_base] =
     Inr (Some ex_en_default, ex_heap)"
    by (simp add: NewEmailNotifier_def Clone_def deref_def modify_def alloc_def Let_def
      ex_receiver_def ex_base_def ex_en_def ex_en_default_def ex_heap_def ex_conf_def clonedConfig_def
      optsEmail_def)
  have c2: "NewEmailNotifier (Inr ex_tmpl) (EmailPtr (Some ex_receiver))
     (Some \<lparr>opt_NotificationTimeout = Some \<lparr>nt_Email = None\<rparr>\<rparr>) [ex_base] =
     Inr (Some ex_en_default, ex_heap)"
    by (simp add: NewEmailNotifier_def Clone_def deref_def modify_def alloc_def Let_def
      ex_receiver_def ex_base_def ex_en_def ex_en_default_def ex_heap_def ex_conf_def clonedConfig_def
      optsEmail_def)
  have d: "deref ex_heap (Some 1) = Inr ex_conf" "en_Config ex_en = Some 1"
    by (simp_all add: deref_def ex_heap_def ex_en_def)
  note T = NewEmailNotifier_Timeout [OF ex_construct,
      where parse = ex_parse and data = "[ex_batch]" and deliver = ex_deliver and w = "[]"]
  have t1: "sint (en_Timeout ex_en) = 1000000000 * 10"
    using T [THEN conjunct1] by (simp add: ex_opts_def)
  have t2: "sint (en_Timeout ex_en_default) = 1000000000 * 3"
    using NewEmailNotifier_Timeout [OF c, THEN conjunct1] by simp
  from T [THEN conjunct2] obtain a c where
    A: "en_Config ex_en = Some a" "deref ex_heap (Some a) = Inr c"
      "case Notify ex_deliver ex_parse ex_en [ex_batch] ex_heap [] of
         Inl p \<Rightarrow> p = TransportPanic
       | Inr r \<Rightarrow> run_world r = snd (attempts ex_deliver [] (allDeliveries ex_parse ex_en c [ex_batch]))"
    by blast
  from A(1) d(2) have a: "a = 1" by simp
  from A(2) d(1) have ce: "c = ex_conf" by (simp add: a)
  from A(3) have w: "snd (attempts ex_deliver [] (allDeliveries ex_parse ex_en ex_conf [ex_batch])) =
     [ex_delivery ''a@example.org'', ex_delivery ''b@example.org'']"
    unfolding ce ex_run by simp
  have m: "map dl_timeout [ex_delivery ''a@example.org'', ex_delivery ''b@example.org''] =
     [en_Timeout ex_en, en_Timeout ex_en]"
    by (simp add: ex_delivery_def ex_en_def)
  show ?thesis using ex_construct c c2 t1 t2 ex_run m w by simp
qed

text \<open>C8: when the value is not a \<^verbatim>\<open>*notifyconfig.Email\<close>, and also when it is one
  whose \<^verbatim>\<open>EmailConfig\<close> is nil (so that the clone is nil), \<^verbatim>\<open>NewEmailNotifier\<close>
  returns nil; it allocates nothing.\<close>

theorem NewEmailNotifier_absent:
  assumes "(\<forall>rp. val \<noteq> EmailPtr rp) \<or>
           (\<exists>receiver. val = EmailPtr (Some receiver) \<and> recv_EmailConfig receiver = None)"
  shows "NewEmailNotifier fromGlobs val opts h = Inr (None, h)"
  using assms
proof
  assume "\<forall>rp. val \<noteq> EmailPtr rp"
  then show ?thesis by (cases val) (simp_all add: NewEmailNotifier_def)
next
  assume "\<exists>receiver. val = EmailPtr (Some receiver) \<and> recv_EmailConfig receiver = None"
  then show ?thesis by (auto simp add: NewEmailNotifier_def Clone_None)
qed

theorem NewEmailNotifier_absent_witness:
  "NewEmailNotifier (Inr ex_tmpl) OtherValue ex_opts [ex_base] = Inr (None, [ex_base]) \<and>
   NewEmailNotifier (Inr ex_tmpl) NilValue ex_opts [ex_base] = Inr (None, [ex_base]) \<and>
   NewEmailNotifier (Inr ex_tmpl) (EmailPtr (Some (ex_receiver\<lparr>recv_EmailConfig := None\<rparr>)))
      ex_opts [ex_base] = Inr (None, [ex_base])"
  using NewEmailNotifier_absent [of OtherValue "Inr ex_tmpl" ex_opts "[ex_base]"]
    NewEmailNotifier_absent [of NilValue "Inr ex_tmpl" ex_opts "[ex_base]"]
    NewEmailNotifier_absent [of "EmailPtr (Some (ex_receiver\<lparr>recv_EmailConfig := None\<rparr>))"
      "Inr ex_tmpl" ex_opts "[ex_base]"]
  by simp

text \<open>C10: when \<^verbatim>\<open>NewEmailNotifier\<close> returns a notifier, its configuration is the
  clone of the receiver's base configuration, in which \<^verbatim>\<open>Clone\<close> has copied the HTML
  body of the base, with the body replaced by the text
  \<^verbatim>\<open>{{ template "email.default.html" . }}\<close>. Every delivery of every batch is handed to
  the transport with that text as its body, whatever the body of the base is, and the
  stored configuration still has it when \<^verbatim>\<open>Notify\<close> returns.\<close>

theorem NewEmailNotifier_HTML:
  assumes "NewEmailNotifier fromGlobs val opts h = Inr (Some en, h')"
  shows "\<exists>receiver b a c.
           val = EmailPtr (Some receiver) \<and> recv_EmailConfig receiver = Some b \<and>
           en_Config en = Some a \<and>
           Clone (Some b) h = Inr (Some a, h @ [clonedConfig (h ! b)]) \<and>
           HTML (clonedConfig (h ! b)) = HTML (h ! b) \<and>
           deref h' (Some a) = Inr c \<and>
           HTML c = ''{{ template '' @ [CHR 0x22] @ ''email.default.html'' @ [CHR 0x22] @ '' . }}'' \<and>
           map (\<lambda>dl. HTML (dl_conf dl)) (allDeliveries parse en c data) =
             replicate (length data * length (en_To en))
               (''{{ template '' @ [CHR 0x22] @ ''email.default.html'' @ [CHR 0x22] @ '' . }}'') \<and>
           (case Notify deliver parse en data h' w of
              Inl p \<Rightarrow> p = TransportPanic
            | Inr r \<Rightarrow>
                run_world r = snd (attempts deliver w (allDeliveries parse en c data)) \<and>
                (\<exists>c'. deref (run_heap r) (Some a) = Inr c' \<and>
                   HTML c' = ''{{ template '' @ [CHR 0x22] @ ''email.default.html'' @ [CHR 0x22] @ '' . }}''))"
proof -
  from NewEmailNotifier_Some [OF assms] obtain receiver b tmpl where
    v: "val = EmailPtr (Some receiver)" "recv_EmailConfig receiver = Some b"
    and b: "b < length h" "RequireTLS (h ! b) \<noteq> None"
    and en: "en_Config en = Some (length h)"
    and h': "h' = h @ [(clonedConfig (h ! b))\<lparr>Headers := Some Map.empty, HTML := defaultHTML\<rparr>]"
    by auto
  let ?c = "(clonedConfig (h ! b))\<lparr>Headers := Some Map.empty, HTML := defaultHTML\<rparr>"
  have cl: "Clone (Some b) h = Inr (Some (length h), h @ [clonedConfig (h ! b)])"
    using b by (auto simp add: Clone_def deref_def alloc_def clonedConfig_def)
  have d: "deref h' (Some (length h)) = Inr ?c" and n: "h' ! length h = ?c"
    by (simp_all add: h' deref_def)
  have html: "HTML ?c = ''{{ template '' @ [CHR 0x22] @ ''email.default.html'' @ [CHR 0x22] @ '' . }}''"
    by (simp add: defaultHTML_def)
  note rd = NewEmailNotifier_ready [OF assms]
  have hc: "HTML (clonedConfig (h ! b)) = HTML (h ! b)" by (simp add: clonedConfig_def)
  have M: "map (\<lambda>dl. HTML (dl_conf dl)) (allDeliveries parse en ?c data) =
             replicate (length data * length (en_To en))
               (''{{ template '' @ [CHR 0x22] @ ''email.default.html'' @ [CHR 0x22] @ '' . }}'')"
    by (simp only: allDeliveries_HTML html)
  have "case Notify deliver parse en data h' w of
              Inl p \<Rightarrow> p = TransportPanic
            | Inr r \<Rightarrow>
                run_world r = snd (attempts deliver w (allDeliveries parse en ?c data)) \<and>
                (\<exists>c'. deref (run_heap r) (Some (length h)) = Inr c' \<and> HTML c' = HTML ?c)"
    using Notify_world [OF rd en, where deliver = deliver and parse = parse and data = data and w = w]
    by (auto simp add: n deref_def h' split: sum.splits)
  then have N: "case Notify deliver parse en data h' w of
              Inl p \<Rightarrow> p = TransportPanic
            | Inr r \<Rightarrow>
                run_world r = snd (attempts deliver w (allDeliveries parse en ?c data)) \<and>
                (\<exists>c'. deref (run_heap r) (Some (length h)) = Inr c' \<and>
                   HTML c' = ''{{ template '' @ [CHR 0x22] @ ''email.default.html'' @ [CHR 0x22] @ '' . }}'')"
    by (simp only: html)
  show ?thesis
    by (intro exI conjI) (rule v(1) v(2) en cl hc d html M N)+
qed

theorem NewEmailNotifier_HTML_witness:
  "NewEmailNotifier (Inr ex_tmpl) (EmailPtr (Some ex_receiver)) ex_opts [ex_base] =
     Inr (Some ex_en, ex_heap) \<and>
   HTML ex_base = ''<b>custom</b>'' \<and>
   Notify ex_deliver ex_parse ex_en [ex_batch] ex_heap [] =
     Inr \<lparr>run_en = ex_en_after, run_heap = [ex_base, ex_sent_conf ''b@example.org''],
          run_world = [ex_delivery ''a@example.org'', ex_delivery ''b@example.org''],
          run_errs = [''refused'']\<rparr> \<and>
   map (\<lambda>dl. HTML (dl_conf dl)) [ex_delivery ''a@example.org'', ex_delivery ''b@example.org''] =
     [''{{ template '' @ [CHR 0x22] @ ''email.default.html'' @ [CHR 0x22] @ '' . }}'',
      ''{{ template '' @ [CHR 0x22] @ ''email.default.html'' @ [CHR 0x22] @ '' . }}''] \<and>
   snd (attempts ex_deliver [] (allDeliveries ex_parse ex_en ex_conf [ex_batch])) =
     [ex_delivery ''a@example.org'', ex_delivery ''b@example.org'']"
proof -
  have d: "deref ex_heap (Some 1) = Inr ex_conf" "en_Config ex_en = Some 1"
    by (simp_all add: deref_def ex_heap_def ex_en_def)
  from NewEmailNotifier_HTML [OF ex_construct,
      where parse = ex_parse and data = "[ex_batch]" and deliver = ex_deliver and w = "[]"]
  obtain a c where
    A: "en_Config ex_en = Some a" "deref ex_heap (Some a) = Inr c"
      "case Notify ex_deliver ex_parse ex_en [ex_batch] ex_heap [] of
         Inl p \<Rightarrow> p = TransportPanic
       | Inr r \<Rightarrow> run_world r = snd (attempts ex_deliver [] (allDeliveries ex_parse ex_en c [ex_batch])) \<and>
           (\<exists>c'. deref (run_heap r) (Some a) = Inr c' \<and>
              HTML c' = ''{{ template '' @ [CHR 0x22] @ ''email.default.html'' @ [CHR 0x22] @ '' . }}'')"
    by blast
  from A(1) d(2) have a: "a = 1" by simp
  from A(2) d(1) have ce: "c = ex_conf" by (simp add: a)
  from A(3) have w: "snd (attempts ex_deliver [] (allDeliveries ex_parse ex_en ex_conf [ex_batch])) =
     [ex_delivery ''a@example.org'', ex_delivery ''b@example.org'']"
    unfolding ce ex_run by simp
  have m: "map (\<lambda>dl. HTML (dl_conf dl)) [ex_delivery ''a@example.org'', ex_delivery ''b@example.org''] =
     [''{{ template '' @ [CHR 0x22] @ ''email.default.html'' @ [CHR 0x22] @ '' . }}'',
      ''{{ template '' @ [CHR 0x22] @ ''email.default.html'' @ [CHR 0x22] @ '' . }}'']"
    by (simp add: ex_delivery_def ex_sent_conf_def ex_conf_def defaultHTML_def)
  have b: "HTML ex_base = ''<b>custom</b>''" by (simp add: ex_base_def)
  show ?thesis using ex_construct ex_run m w b by simp
qed

section \<open>Properties of Clone\<close>

text \<open>C5: two clones made one after the other from a base in the store are at
  addresses different from each other and from the base; writing the destination of
  either clone leaves the other clone and the base as they are.\<close>

theorem Clone_independent:
  assumes "Clone (Some b) h = Inr (Some c1, h1)" and "Clone (Some b) h1 = Inr (Some c2, h2)"
  shows "c1 \<noteq> c2 \<and> c1 \<noteq> b \<and> c2 \<noteq> b \<and>
         (\<exists>h3 c. modify (Some c1) (\<lambda>c. c\<lparr>To := to\<rparr>) h2 = Inr h3 \<and>
            deref h3 (Some c1) = Inr c \<and> To c = to \<and>
            deref h3 (Some c2) = deref h2 (Some c2) \<and>
            deref h3 (Some b) = deref h2 (Some b)) \<and>
         (\<exists>h3 c. modify (Some c2) (\<lambda>c. c\<lparr>To := to\<rparr>) h2 = Inr h3 \<and>
            deref h3 (Some c2) = Inr c \<and> To c = to \<and>
            deref h3 (Some c1) = deref h2 (Some c1) \<and>
            deref h3 (Some b) = deref h2 (Some b))"
proof -
  from Clone_Some [OF assms(1)]
  have 1: "b < length h" "c1 = length h" "h1 = h @ [clonedConfig (h ! b)]" by simp_all
  from Clone_Some [OF assms(2)]
  have 2: "c2 = length h1" "h2 = h1 @ [clonedConfig (h1 ! b)]" by simp_all
  have l: "length h1 = Suc (length h)" "length h2 = Suc (Suc (length h))"
    by (simp_all add: 1 2)
  show ?thesis
    using 1(1) by (simp add: modify_def deref_def 1(2) 2(1) l)
qed

theorem Clone_independent_witness:
  "Clone (Some 0) [ex_base] = Inr (Some 1, [ex_base, clonedConfig ex_base]) \<and>
   Clone (Some 0) [ex_base, clonedConfig ex_base] =
     Inr (Some 2, [ex_base, clonedConfig ex_base, clonedConfig ex_base]) \<and>
   modify (Some 1) (\<lambda>c. c\<lparr>To := ''a@example.org''\<rparr>)
     [ex_base, clonedConfig ex_base, clonedConfig ex_base] =
     Inr [ex_base, (clonedConfig ex_base)\<lparr>To := ''a@example.org''\<rparr>, clonedConfig ex_base] \<and>
   To ex_base = ''base@example.org'' \<and> To (clonedConfig ex_base) = []"
proof -
  have a: "Clone (Some 0) [ex_base] = Inr (Some 1, [ex_base, clonedConfig ex_base])"
    by (simp add: Clone_def deref_def alloc_def clonedConfig_def ex_base_def)
  have b: "Clone (Some 0) [ex_base, clonedConfig ex_base] =
     Inr (Some 2, [ex_base, clonedConfig ex_base, clonedConfig ex_base])"
    by (simp add: Clone_def deref_def alloc_def clonedConfig_def ex_base_def)
  from Clone_independent [OF a b, of "''a@example.org''"]
  show ?thesis using a b
    by (simp add: modify_def clonedConfig_def ex_base_def)
qed

end
